theory Spec2Isabelle
  imports
    Main
    "HOL-Library.Char_ord"
    "HOL-Library.List_Lexorder"
    "HOL-Library.Product_Lexorder"
begin

section \<open>Data model of deepsearch (state.py)\<close>

text \<open>
  Python strings are modelled as \<^typ>\<open>string\<close>. Fields of different
  classes share one name space here, so each field carries a prefix naming its class
  (\<open>q_\<close> for ResearchQuestion, \<open>f_\<close> for Finding, \<open>vf_\<close> for VerifiedFinding).
\<close>

datatype ResearchDepth = QUICK | BALANCED | COMPREHENSIVE

datatype ResearchStatus = PENDING | RUNNING | PAUSED | COMPLETED | FAILED

datatype SearchStrategy = GENERAL | ACADEMIC | NEWS | TECHNICAL | LEGAL | FINANCIAL

record ResearchQuestion =
  q_id :: string
  q_question :: string
  q_priority :: int
  q_keywords :: "string list"
  q_rationale :: string
  q_category :: string
  q_dependencies :: "string list"
  q_order :: int
  q_search_strategy :: SearchStrategy
  q_search_operators :: "string list"

text \<open>
  A Finding also carries a credibility score and a timestamp; no function modelled here
  reads or changes them, so they live in the extension slot of the record.
\<close>

record Finding =
  f_question :: string
  f_source :: string
  f_title :: string
  f_content :: string

record VerifiedFinding =
  vf_finding :: Finding
  vf_verification_status :: string
  vf_supporting_sources :: "string list"
  vf_conflicting_sources :: "string list"
  vf_notes :: string

record ReflectionResult =
  r_is_complete :: bool
  r_gaps :: "string list"
  r_new_questions :: "ResearchQuestion list"
  r_reasoning :: string

record SearchRecord =
  sr_query :: string
  sr_provider :: string
  sr_results_count :: int

text \<open>
  ResearchState. The cursor \<open>current_question_index\<close> is a natural number: the command
  line and \<open>plan_node\<close> set it to 0 and \<open>research_node\<close> only adds 1 to it. The
  counters \<open>iteration\<close> and \<open>max_iterations\<close> are Python ints; the budget comes from the
  command line unchecked.
\<close>

record ResearchState =
  job_id :: string
  topic :: string
  depth :: ResearchDepth
  status :: ResearchStatus
  plan :: "ResearchQuestion list"
  current_question_index :: nat
  completed_question_ids :: "string list"
  findings :: "Finding list"
  search_history :: "SearchRecord list"
  iteration :: int
  max_iterations :: int
  reflection :: "ReflectionResult option"
  verified_findings :: "VerifiedFinding list"
  report :: string
  error :: "string option"

section \<open>String helpers (str.lower, str.split)\<close>

text \<open>
  \<open>str.lower\<close> and \<open>str.split\<close> belong to Python, not to this repository, and they
  are Unicode-aware. The verifier below therefore takes the function
  \<open>words s = set(s.lower().split())\<close> as a parameter, and what is proved about it holds
  for every such function. \<open>ascii_words\<close> is that function on ASCII text, where it agrees
  with Python; it serves to evaluate the verifier on concrete ASCII findings.
\<close>

definition is_upper :: "char \<Rightarrow> bool" where
  "is_upper c = (CHR ''A'' \<le> c \<and> c \<le> CHR ''Z'')"

definition lower_char :: "char \<Rightarrow> char" where
  "lower_char c = (if is_upper c then char_of (of_char c + (32::nat)) else c)"

definition py_lower :: "string \<Rightarrow> string" where
  "py_lower s = map lower_char s"

text \<open>The ASCII characters for which \<open>str.isspace\<close> holds: TAB, LF, VT, FF, CR,
  FS, GS, RS, US and the space.\<close>

definition is_space :: "char \<Rightarrow> bool" where
  "is_space c = (let n = (of_char c :: nat) in (9 \<le> n \<and> n \<le> 13) \<or> (28 \<le> n \<and> n \<le> 32))"

text \<open>\<open>s.split()\<close> with no argument: the maximal runs of non-space characters.\<close>

fun split_ws :: "string \<Rightarrow> string \<Rightarrow> string list" where
  "split_ws cur [] = (if cur = [] then [] else [cur])"
| "split_ws cur (c # cs) =
     (if is_space c then (if cur = [] then split_ws [] cs else cur # split_ws [] cs)
      else split_ws (cur @ [c]) cs)"

definition py_split :: "string \<Rightarrow> string list" where
  "py_split s = split_ws [] s"

definition ascii_words :: "string \<Rightarrow> string set" where
  "ascii_words s = set (py_split (py_lower s))"

section \<open>Verification engine (agents/verifier.py)\<close>

text \<open>
  \<open>_content_similar\<close>. The source compares the float \<open>overlap / min(len a, len b)\<close>
  with the float literal \<open>0.3\<close>. For word sets of fewer than \<open>2^50\<close> elements the
  correctly rounded quotient of two integers exceeds the double nearest to 0.3 exactly
  when the rational quotient exceeds 3/10, which is the integer comparison written here.
\<close>

definition content_similar :: "(string \<Rightarrow> string set) \<Rightarrow> string \<Rightarrow> string \<Rightarrow> bool" where
  "content_similar words a b =
     (let a_words = words a;
          b_words = words b
      in if a_words = {} \<or> b_words = {} then False
         else 10 * card (a_words \<inter> b_words) > 3 * min (card a_words) (card b_words))"

definition supporting_of ::
  "(string \<Rightarrow> string set) \<Rightarrow> Finding list \<Rightarrow> Finding \<Rightarrow> string list" where
  "supporting_of words fs finding =
     map f_source
       (filter (\<lambda>f. f_source f \<noteq> f_source finding
                    \<and> content_similar words (f_content finding) (f_content f)) fs)"

definition group_status :: "string list \<Rightarrow> string" where
  "group_status supporting =
     (let status = (if length supporting \<ge> 2 then ''confirmed'' else ''unverified'')
      in if length supporting = 1 then ''confirmed'' else status)"

definition verify_group ::
  "(string \<Rightarrow> string set) \<Rightarrow> Finding list \<Rightarrow> VerifiedFinding list" where
  "verify_group words fs =
     map (\<lambda>finding.
            \<lparr> vf_finding = finding,
              vf_verification_status = group_status (supporting_of words fs finding),
              vf_supporting_sources = supporting_of words fs finding,
              vf_conflicting_sources = [],
              vf_notes = [] \<rparr>) fs"

text \<open>\<open>by_question\<close>: a \<open>defaultdict(list)\<close>, which keeps its keys in the order of
  their first insertion; an association list in that order.\<close>

fun group_add :: "(string \<times> Finding list) list \<Rightarrow> Finding \<Rightarrow> (string \<times> Finding list) list" where
  "group_add [] f = [(f_question f, [f])]"
| "group_add ((k, g) # rest) f =
     (if k = f_question f then (k, g @ [f]) # rest else (k, g) # group_add rest f)"

definition by_question :: "Finding list \<Rightarrow> (string \<times> Finding list) list" where
  "by_question fs = foldl group_add [] fs"

definition unverified_of :: "Finding \<Rightarrow> VerifiedFinding" where
  "unverified_of f =
     \<lparr> vf_finding = f, vf_verification_status = ''unverified'',
       vf_supporting_sources = [], vf_conflicting_sources = [], vf_notes = [] \<rparr>"

definition verify :: "(string \<Rightarrow> string set) \<Rightarrow> Finding list \<Rightarrow> VerifiedFinding list" where
  "verify words fs =
     (if fs = [] then []
      else if length fs \<le> 3 then map unverified_of fs
      else concat (map (\<lambda>(question, question_findings). verify_group words question_findings)
                       (by_question fs)))"

text \<open>The three findings of Scenario 4 and a fourth one.\<close>

definition scenario_a :: Finding where
  "scenario_a = \<lparr> f_question = ''q'', f_source = ''http://a.org'', f_title = ''A'',
                   f_content = ''the sky is blue today'' \<rparr>"

definition scenario_b :: Finding where
  "scenario_b = \<lparr> f_question = ''q'', f_source = ''http://b.org'', f_title = ''B'',
                   f_content = ''The sky is very blue'' \<rparr>"

definition scenario_c :: Finding where
  "scenario_c = \<lparr> f_question = ''other'', f_source = ''http://c.org'', f_title = ''C'',
                   f_content = ''grass grows slowly'' \<rparr>"

definition scenario_d :: Finding where
  "scenario_d = \<lparr> f_question = ''other'', f_source = ''http://c.org'', f_title = ''D'',
                   f_content = ''rivers run downhill'' \<rparr>"

definition scenario4 :: "Finding list" where
  "scenario4 = [scenario_a, scenario_b, scenario_c]"

definition scenario4_more :: "Finding list" where
  "scenario4_more = [scenario_a, scenario_b, scenario_c, scenario_d]"

section \<open>Research workflow (workflow.py)\<close>

text \<open>
  The nodes are functions of the state. What an external agent returns (the planner's
  questions, the researcher's findings and search record, the reflector's result, the
  writer's report) is an argument of the node. \<open>research_node\<close> also returns the list
  of questions it passed to the researcher: empty when the researcher was not invoked.
\<close>

definition plan_node :: "ResearchQuestion list \<Rightarrow> ResearchState \<Rightarrow> ResearchState" where
  "plan_node questions state =
     state\<lparr> plan := questions, current_question_index := 0,
            completed_question_ids := [], status := RUNNING \<rparr>"

definition research_node ::
  "(ResearchQuestion \<Rightarrow> Finding list \<times> SearchRecord) \<Rightarrow> ResearchState
     \<Rightarrow> ResearchState \<times> ResearchQuestion list" where
  "research_node researcher state =
     (let idx = current_question_index state;
          completed_ids = completed_question_ids state
      in if idx \<ge> length (plan state) then (state, [])
         else
           let question = plan state ! idx
           in if q_dependencies question \<noteq> []
                 \<and> \<not> list_all (\<lambda>dep_id. dep_id \<in> set completed_ids) (q_dependencies question)
              then (state\<lparr> current_question_index := idx + 1 \<rparr>, [])
              else
                let (fs, search_record) = researcher question
                in (state\<lparr> findings := findings state @ fs,
                           search_history := search_history state @ [search_record],
                           current_question_index := idx + 1,
                           completed_question_ids := completed_ids @ [q_id question] \<rparr>,
                    [question]))"

definition reflect_node :: "ReflectionResult \<Rightarrow> ResearchState \<Rightarrow> ResearchState" where
  "reflect_node r state =
     state\<lparr> reflection := Some r,
            plan := (if r_new_questions r \<noteq> [] then plan state @ r_new_questions r
                     else plan state),
            iteration := iteration state + 1 \<rparr>"

definition verify_node :: "(string \<Rightarrow> string set) \<Rightarrow> ResearchState \<Rightarrow> ResearchState" where
  "verify_node words state = state\<lparr> verified_findings := verify words (findings state) \<rparr>"

definition write_node :: "string \<Rightarrow> ResearchState \<Rightarrow> ResearchState" where
  "write_node rep state = state\<lparr> report := rep, status := COMPLETED \<rparr>"

datatype decision = Continue | Verify

definition should_continue_researching :: "ResearchState \<Rightarrow> decision" where
  "should_continue_researching state =
     (if iteration state \<ge> max_iterations state then Verify
      else if current_question_index state < length (plan state) then Continue
      else if (case reflection state of None \<Rightarrow> False | Some r \<Rightarrow> \<not> r_is_complete r)
        then Continue
      else Verify)"

text \<open>
  The compiled graph: entry point \<open>plan\<close>, edges \<open>plan \<rightarrow> research\<close>,
  \<open>reflect \<rightarrow> research\<close>, \<open>verify \<rightarrow> write\<close>, \<open>write \<rightarrow> END\<close>, and the conditional edge
  after \<open>research\<close>. A configuration is the node about to run and the state it will
  receive. The agents' answers and Python's word splitting are arbitrary, so every
  behaviour of the real agents is a behaviour of this relation.
\<close>

datatype node = N_plan | N_research | N_reflect | N_verify | N_write | N_END

inductive step :: "node \<times> ResearchState \<Rightarrow> node \<times> ResearchState \<Rightarrow> bool" where
  step_plan: "step (N_plan, s) (N_research, plan_node questions s)"
| step_research:
    "s' = fst (research_node researcher s) \<Longrightarrow>
     n' = (case should_continue_researching s' of Continue \<Rightarrow> N_reflect | Verify \<Rightarrow> N_verify) \<Longrightarrow>
     step (N_research, s) (n', s')"
| step_reflect: "step (N_reflect, s) (N_research, reflect_node r s)"
| step_verify: "step (N_verify, s) (N_write, verify_node words s)"
| step_write: "step (N_write, s) (N_END, write_node rep s)"

text \<open>\<open>run c ns c'\<close>: from \<open>c\<close> the graph reaches \<open>c'\<close>, having run the nodes \<open>ns\<close> in
  that order.\<close>

inductive run :: "node \<times> ResearchState \<Rightarrow> node list \<Rightarrow> node \<times> ResearchState \<Rightarrow> bool" where
  run_nil: "run c [] c"
| run_snoc: "run c ns c' \<Longrightarrow> step c' c'' \<Longrightarrow> run c (ns @ [fst c']) c''"

text \<open>The initial state the command line builds for a topic and a budget.\<close>

definition initial_state :: "string \<Rightarrow> string \<Rightarrow> ResearchDepth \<Rightarrow> int \<Rightarrow> ResearchState" where
  "initial_state jid tp d n =
     \<lparr> job_id = jid, topic = tp, depth = d, status = PENDING, plan = [],
       current_question_index = 0, completed_question_ids = [], findings = [],
       search_history = [], iteration = 0, max_iterations = n, reflection = None,
       verified_findings = [], report = [], error = None \<rparr>"

text \<open>The invariant of the loop: the counter is the starting value plus the number of
  \<open>reflect\<close> nodes run so far, it is within the budget, and \<open>reflect\<close> is only entered
  strictly below the budget.\<close>

definition budget_inv :: "int \<Rightarrow> node list \<Rightarrow> node \<times> ResearchState \<Rightarrow> bool" where
  "budget_inv i0 ns c \<longleftrightarrow>
     iteration (snd c) = i0 + int (count_list ns N_reflect)
     \<and> iteration (snd c) \<le> max_iterations (snd c)
     \<and> (fst c = N_reflect \<longrightarrow> iteration (snd c) < max_iterations (snd c))"

text \<open>A question built with the defaults of the ResearchQuestion class.\<close>

definition new_question :: "string \<Rightarrow> string \<Rightarrow> string list \<Rightarrow> ResearchQuestion" where
  "new_question qid text deps =
     \<lparr> q_id = qid, q_question = text, q_priority = 1, q_keywords = [], q_rationale = [],
       q_category = ''general'', q_dependencies = deps, q_order = 0,
       q_search_strategy = GENERAL, q_search_operators = [] \<rparr>"

text \<open>A run with budget 1 over a plan of two questions (Scenario 2): a researcher that
  finds nothing and a reflector that always reports incomplete.\<close>

definition demo_researcher :: "ResearchQuestion \<Rightarrow> Finding list \<times> SearchRecord" where
  "demo_researcher q = ([], \<lparr> sr_query = q_question q, sr_provider = ''tavily'', sr_results_count = 0 \<rparr>)"

definition demo_reflection :: ReflectionResult where
  "demo_reflection = \<lparr> r_is_complete = False, r_gaps = [''gap''], r_new_questions = [],
                        r_reasoning = [] \<rparr>"

definition demo_s0 :: ResearchState where
  "demo_s0 = initial_state ''job'' ''topic'' BALANCED 1"

definition demo_s1 :: ResearchState where
  "demo_s1 = plan_node [new_question ''q1'' ''first'' [], new_question ''q2'' ''second'' [''q1'']] demo_s0"

definition demo_s2 :: ResearchState where
  "demo_s2 = fst (research_node demo_researcher demo_s1)"

definition demo_s3 :: ResearchState where
  "demo_s3 = reflect_node demo_reflection demo_s2"

definition demo_s4 :: ResearchState where
  "demo_s4 = fst (research_node demo_researcher demo_s3)"

text \<open>Scenario 1: the plan \<open>[A, B, C]\<close> where \<open>C\<close> depends on \<open>A\<close> and \<open>B\<close>, with the
  cursor on \<open>C\<close> and only \<open>A\<close> completed.\<close>

definition scenario1_state :: ResearchState where
  "scenario1_state =
     (initial_state ''job'' ''topic'' BALANCED 5)
       \<lparr> plan := [new_question ''C'' ''c'' [''A'', ''B''], new_question ''A'' ''a'' [],
                  new_question ''B'' ''b'' []],
         completed_question_ids := [''A''] \<rparr>"

text \<open>A run with the budget \<open>-1\<close>, which the command line accepts: the planner
  returns no question.\<close>

definition neg_s0 :: ResearchState where
  "neg_s0 = initial_state ''job'' ''topic'' BALANCED (- 1)"

definition neg_s1 :: ResearchState where
  "neg_s1 = plan_node [] neg_s0"

definition neg_s2 :: ResearchState where
  "neg_s2 = fst (research_node demo_researcher neg_s1)"

section \<open>JSON values and external calls\<close>

text \<open>
  What \<open>json.loads\<close> returns. A float is kept as a mantissa and a binary exponent; no
  function modelled here computes with it. An object keeps its members in order; a
  lookup finds the last member with the key, as \<open>json.loads\<close> keeps the last duplicate.
\<close>

datatype json =
    JNull
  | JBool bool
  | JInt int
  | JFloat int int
  | JStr string
  | JList "json list"
  | JObj "(string \<times> json) list"

definition obj_get :: "(string \<times> json) list \<Rightarrow> string \<Rightarrow> json option" where
  "obj_get kvs k = map_of (rev kvs) k"

text \<open>\<open>d.get(k, default)\<close> on a dict.\<close>

definition dict_get :: "(string \<times> json) list \<Rightarrow> string \<Rightarrow> json \<Rightarrow> json" where
  "dict_get kvs k dflt = (case obj_get kvs k of None \<Rightarrow> dflt | Some v \<Rightarrow> v)"

text \<open>The result of awaiting an external service: it raises or it returns.\<close>

datatype 'a outcome = Raises | Returns 'a

text \<open>
  A reply of the language model as the callers read it: the call raises; or the text,
  cut from its first \<open>{\<close> to its last \<open>}\<close>, is not JSON (\<open>json.JSONDecodeError\<close>); or
  it parses to a value.
\<close>

datatype llm_reply = LlmRaises | Unparseable | Parsed json

section \<open>Fact checker (deep\_thinking/agents/fact\_checker.py)\<close>

datatype VerificationStatus = CONFIRMED | DISPUTED | UNVERIFIED

record VerifiedClaim =
  vc_claim :: string
  vc_status :: VerificationStatus
  vc_source_url :: "string option"
  vc_notes :: string

record SearchResult =
  res_title :: string
  res_url :: string
  res_snippet :: string
  res_source :: string

text \<open>\<open>VerificationStatus(value)\<close>: the enum member with that value, or ValueError
  (\<open>None\<close>).\<close>

definition VerificationStatus_of :: "json \<Rightarrow> VerificationStatus option" where
  "VerificationStatus_of j =
     (case j of
        JStr s \<Rightarrow> (if s = ''confirmed'' then Some CONFIRMED
                   else if s = ''disputed'' then Some DISPUTED
                   else if s = ''unverified'' then Some UNVERIFIED
                   else None)
      | _ \<Rightarrow> None)"

text \<open>The value every exception of \<open>_verify_single_claim\<close> ends in
  (\<open>except Exception\<close>).\<close>

definition verification_failed :: "string \<Rightarrow> VerifiedClaim" where
  "verification_failed claim =
     \<lparr> vc_claim = claim, vc_status = UNVERIFIED, vc_source_url = None,
       vc_notes = ''Verification failed due to error'' \<rparr>"

text \<open>
  \<open>_verify_single_claim\<close>. The search tool is a function of the query and the result
  cap; the model is a function of what the prompt is built from. A reply that is not an
  object has no \<open>get\<close> (AttributeError); a status that is no enum value is a ValueError;
  a \<open>source_url\<close> that is neither a string nor null, or \<open>notes\<close> that are not a
  string, fail the validation of \<open>VerifiedClaim\<close>. All of them are caught.
\<close>

definition verify_single_claim ::
  "(string \<Rightarrow> nat \<Rightarrow> SearchResult list outcome)
     \<Rightarrow> (string \<Rightarrow> string \<Rightarrow> SearchResult list \<Rightarrow> llm_reply)
     \<Rightarrow> string \<Rightarrow> string \<Rightarrow> string \<Rightarrow> VerifiedClaim" where
  "verify_single_claim search_tool llm claim claim_type search_query =
     (case search_tool search_query 3 of
        Raises \<Rightarrow> verification_failed claim
      | Returns results \<Rightarrow>
          if results = [] then
            \<lparr> vc_claim = claim, vc_status = UNVERIFIED, vc_source_url = None,
              vc_notes = ''No search results found'' \<rparr>
          else
            (case llm claim claim_type results of
               Parsed (JObj data) \<Rightarrow>
                 (case VerificationStatus_of (dict_get data ''status'' (JStr ''unverified'')) of
                    None \<Rightarrow> verification_failed claim
                  | Some st \<Rightarrow>
                      (case (dict_get data ''source_url'' JNull, dict_get data ''notes'' (JStr [])) of
                         (JNull, JStr notes) \<Rightarrow>
                           \<lparr> vc_claim = claim, vc_status = st, vc_source_url = None,
                             vc_notes = notes \<rparr>
                       | (JStr url, JStr notes) \<Rightarrow>
                           \<lparr> vc_claim = claim, vc_status = st, vc_source_url = Some url,
                             vc_notes = notes \<rparr>
                       | _ \<Rightarrow> verification_failed claim))
             | _ \<Rightarrow> verification_failed claim))"

text \<open>A search tool that finds nothing, one that finds a page, and a model that
  confirms whatever it is asked.\<close>

definition empty_search :: "string \<Rightarrow> nat \<Rightarrow> SearchResult list outcome" where
  "empty_search query max_results = Returns []"

definition one_hit_search :: "string \<Rightarrow> nat \<Rightarrow> SearchResult list outcome" where
  "one_hit_search query max_results =
     Returns [\<lparr> res_title = ''Page'', res_url = ''http://a.org'', res_snippet = query,
                res_source = [] \<rparr>]"

definition confirming_llm :: "string \<Rightarrow> string \<Rightarrow> SearchResult list \<Rightarrow> llm_reply" where
  "confirming_llm claim claim_type results =
     Parsed (JObj [(''status'', JStr ''confirmed''), (''source_url'', JStr ''http://a.org''),
                   (''notes'', JStr ''found'')])"

section \<open>Persistence store (storage.py)\<close>

text \<open>
  \<open>model_dump(mode="json")\<close> of a ResearchQuestion and its inverse
  \<open>ResearchQuestion(**q)\<close>. The validators are those of the field types on JSON values
  of the field's own type, which is what \<open>model_dump\<close> produces; a value of another type
  fails the validation here (\<open>None\<close>).
\<close>

definition SearchStrategy_value :: "SearchStrategy \<Rightarrow> string" where
  "SearchStrategy_value s =
     (case s of GENERAL \<Rightarrow> ''general'' | ACADEMIC \<Rightarrow> ''academic'' | NEWS \<Rightarrow> ''news''
      | TECHNICAL \<Rightarrow> ''technical'' | LEGAL \<Rightarrow> ''legal'' | FINANCIAL \<Rightarrow> ''financial'')"

definition SearchStrategy_of :: "string \<Rightarrow> SearchStrategy option" where
  "SearchStrategy_of s =
     (if s = ''general'' then Some GENERAL
      else if s = ''academic'' then Some ACADEMIC
      else if s = ''news'' then Some NEWS
      else if s = ''technical'' then Some TECHNICAL
      else if s = ''legal'' then Some LEGAL
      else if s = ''financial'' then Some FINANCIAL
      else None)"

definition ResearchStatus_value :: "ResearchStatus \<Rightarrow> string" where
  "ResearchStatus_value s =
     (case s of PENDING \<Rightarrow> ''pending'' | RUNNING \<Rightarrow> ''running'' | PAUSED \<Rightarrow> ''paused''
      | COMPLETED \<Rightarrow> ''completed'' | FAILED \<Rightarrow> ''failed'')"

definition ResearchStatus_of :: "string \<Rightarrow> ResearchStatus option" where
  "ResearchStatus_of s =
     (if s = ''pending'' then Some PENDING
      else if s = ''running'' then Some RUNNING
      else if s = ''paused'' then Some PAUSED
      else if s = ''completed'' then Some COMPLETED
      else if s = ''failed'' then Some FAILED
      else None)"

definition as_str :: "json \<Rightarrow> string option" where
  "as_str j = (case j of JStr s \<Rightarrow> Some s | _ \<Rightarrow> None)"

definition as_int :: "json \<Rightarrow> int option" where
  "as_int j = (case j of JInt n \<Rightarrow> Some n | _ \<Rightarrow> None)"

fun all_some :: "'a option list \<Rightarrow> 'a list option" where
  "all_some [] = Some []"
| "all_some (None # xs) = None"
| "all_some (Some x # xs) = (case all_some xs of None \<Rightarrow> None | Some ys \<Rightarrow> Some (x # ys))"

definition as_str_list :: "json \<Rightarrow> string list option" where
  "as_str_list j = (case j of JList xs \<Rightarrow> all_some (map as_str xs) | _ \<Rightarrow> None)"

definition question_dump :: "ResearchQuestion \<Rightarrow> json" where
  "question_dump q =
     JObj [(''id'', JStr (q_id q)),
           (''question'', JStr (q_question q)),
           (''priority'', JInt (q_priority q)),
           (''keywords'', JList (map JStr (q_keywords q))),
           (''rationale'', JStr (q_rationale q)),
           (''category'', JStr (q_category q)),
           (''dependencies'', JList (map JStr (q_dependencies q))),
           (''order'', JInt (q_order q)),
           (''search_strategy'', JStr (SearchStrategy_value (q_search_strategy q))),
           (''search_operators'', JList (map JStr (q_search_operators q)))]"

text \<open>
  \<open>ResearchQuestion(**q)\<close> with the defaults of the class for absent members. The default
  id comes from the clock (\<open>q_<timestamp>\<close>) and is the parameter \<open>fresh_id\<close>. \<open>None\<close>
  stands for the exception raised: TypeError when \<open>q\<close> is no mapping, ValidationError
  when \<open>question\<close> is absent or a member fails its validator.
\<close>

definition question_of_json :: "string \<Rightarrow> json \<Rightarrow> ResearchQuestion option" where
  "question_of_json fresh_id j =
     (case j of
        JObj kvs \<Rightarrow>
          (case (as_str (dict_get kvs ''id'' (JStr fresh_id)),
                 case obj_get kvs ''question'' of None \<Rightarrow> None | Some v \<Rightarrow> as_str v,
                 as_int (dict_get kvs ''priority'' (JInt 1)),
                 as_str_list (dict_get kvs ''keywords'' (JList [])),
                 as_str (dict_get kvs ''rationale'' (JStr []))) of
             (Some i, Some qu, Some p, Some kw, Some ra) \<Rightarrow>
               (case (as_str (dict_get kvs ''category'' (JStr ''general'')),
                      as_str_list (dict_get kvs ''dependencies'' (JList [])),
                      as_int (dict_get kvs ''order'' (JInt 0)),
                      case as_str (dict_get kvs ''search_strategy'' (JStr ''general'')) of
                        None \<Rightarrow> None | Some s \<Rightarrow> SearchStrategy_of s,
                      as_str_list (dict_get kvs ''search_operators'' (JList []))) of
                  (Some ca, Some de, Some od, Some st, Some ops) \<Rightarrow>
                    Some \<lparr> q_id = i, q_question = qu, q_priority = p, q_keywords = kw,
                           q_rationale = ra, q_category = ca, q_dependencies = de,
                           q_order = od, q_search_strategy = st, q_search_operators = ops \<rparr>
                | _ \<Rightarrow> None)
           | _ \<Rightarrow> None)
      | _ \<Rightarrow> None)"

text \<open>
  A row of the table \<open>research_jobs\<close>. The text of \<open>plan_json\<close> is the JSON value it
  encodes (\<open>json.dumps\<close> and \<open>json.loads\<close> are inverse on it), \<open>None\<close> being SQL NULL. The
  other JSON columns are written and read the same way; they are kept as the values they
  encode. The depth column holds the word of a ResearchDepth: the command line admits no
  other. The timestamps of the row are left out.
\<close>

record Row =
  row_id :: string
  row_topic :: string
  row_depth :: ResearchDepth
  row_status :: string
  row_plan_json :: "json option"
  row_current_question_index :: nat
  row_findings :: "Finding list"
  row_search_history :: "SearchRecord list"
  row_iteration :: int
  row_max_iterations :: int
  row_reflection :: "ReflectionResult option"
  row_verified_findings :: "VerifiedFinding list"
  row_report :: "string option"
  row_error :: "string option"

text \<open>The table, by its primary key.\<close>

type_synonym store = "string \<rightharpoonup> Row"

datatype storage_error = IntegrityError | ValueError | TypeError | ValidationError

text \<open>\<open>create_job\<close>: the id is drawn outside (\<open>uuid4\<close>); a row with that id already
  there violates the primary key.\<close>

definition create_job ::
  "store \<Rightarrow> string \<Rightarrow> string \<Rightarrow> ResearchDepth \<Rightarrow> int \<Rightarrow> storage_error + store" where
  "create_job db new_id tp d max_it =
     (if new_id \<in> dom db then Inl IntegrityError
      else Inr (db(new_id \<mapsto>
        \<lparr> row_id = new_id, row_topic = tp, row_depth = d,
          row_status = ResearchStatus_value PENDING, row_plan_json = None,
          row_current_question_index = 0, row_findings = [], row_search_history = [],
          row_iteration = 0, row_max_iterations = max_it, row_reflection = None,
          row_verified_findings = [], row_report = None, row_error = None \<rparr>)))"

text \<open>\<open>serialize_list\<close> on the plan: \<open>"[]"\<close> for an empty list, else the list of
  dumps.\<close>

definition serialize_plan :: "ResearchQuestion list \<Rightarrow> json" where
  "serialize_plan items = (if items = [] then JList [] else JList (map question_dump items))"

text \<open>\<open>save_state\<close>: one UPDATE of the row whose id is the state's \<open>job_id\<close>. With no
  such row the UPDATE changes nothing. Topic, depth and \<open>max_iterations\<close> are not among
  the columns it sets.\<close>

definition save_state :: "store \<Rightarrow> ResearchState \<Rightarrow> store" where
  "save_state db state =
     (case db (job_id state) of
        None \<Rightarrow> db
      | Some row \<Rightarrow>
          db(job_id state \<mapsto>
            row\<lparr> row_status := ResearchStatus_value (status state),
                 row_plan_json := Some (serialize_plan (plan state)),
                 row_current_question_index := current_question_index state,
                 row_findings := findings state,
                 row_search_history := search_history state,
                 row_iteration := iteration state,
                 row_reflection := reflection state,
                 row_verified_findings := verified_findings state,
                 row_report := Some (report state),
                 row_error := error state \<rparr>))"

text \<open>
  \<open>_row_to_state\<close>. \<open>json.loads(row["plan_json"] or "[]")\<close> must be a list, each item
  of which becomes a question. The loaded state has no \<open>completed_question_ids\<close>; its
  readers take the default \<open>[]\<close>. A NULL report is read as the empty text.
\<close>

definition plan_of_json :: "string \<Rightarrow> json option \<Rightarrow> storage_error + ResearchQuestion list" where
  "plan_of_json fresh_id pj =
     (case (case pj of None \<Rightarrow> JList [] | Some j \<Rightarrow> j) of
        JList items \<Rightarrow>
          (case all_some (map (question_of_json fresh_id) items) of
             None \<Rightarrow> Inl ValidationError
           | Some qs \<Rightarrow> Inr qs)
      | _ \<Rightarrow> Inl TypeError)"

definition row_to_state :: "string \<Rightarrow> Row \<Rightarrow> storage_error + ResearchState" where
  "row_to_state fresh_id row =
     (case ResearchStatus_of (row_status row) of
        None \<Rightarrow> Inl ValueError
      | Some st \<Rightarrow>
          (case plan_of_json fresh_id (row_plan_json row) of
             Inl e \<Rightarrow> Inl e
           | Inr qs \<Rightarrow>
               Inr \<lparr> job_id = row_id row, topic = row_topic row, depth = row_depth row,
                     status = st, plan = qs,
                     current_question_index = row_current_question_index row,
                     completed_question_ids = [],
                     findings = row_findings row,
                     search_history = row_search_history row,
                     iteration = row_iteration row,
                     max_iterations = row_max_iterations row,
                     reflection = row_reflection row,
                     verified_findings = row_verified_findings row,
                     report = (case row_report row of None \<Rightarrow> [] | Some t \<Rightarrow> t),
                     error = row_error row \<rparr>))"

text \<open>\<open>load_state\<close>: \<open>None\<close> when no row has the id.\<close>

definition load_state :: "string \<Rightarrow> store \<Rightarrow> string \<Rightarrow> storage_error + ResearchState option" where
  "load_state fresh_id db jid =
     (case db jid of
        None \<Rightarrow> Inr None
      | Some row \<Rightarrow>
          (case row_to_state fresh_id row of Inl e \<Rightarrow> Inl e | Inr s \<Rightarrow> Inr (Some s)))"

text \<open>A store with the one job \<open>job\<close>, as \<open>create_job\<close> leaves it.\<close>

definition demo_store :: store where
  "demo_store = (case create_job Map.empty ''job'' ''topic'' BALANCED 1 of
                   Inl e \<Rightarrow> Map.empty | Inr db \<Rightarrow> db)"

section \<open>Theorems\<close>

subsection \<open>The verification engine\<close>

lemma content_similar_sym: "content_similar words a b = content_similar words b a"
  by (auto simp: content_similar_def Let_def Int_commute min.commute)

lemma group_add_keys: "fst ` set (group_add acc f) = insert (f_question f) (fst ` set acc)"
  by (induction acc f rule: group_add.induct) auto

lemma group_add_distinct: "distinct (map fst acc) \<Longrightarrow> distinct (map fst (group_add acc f))"
proof (induction acc f rule: group_add.induct)
  case (1 f)
  then show ?case by simp
next
  case (2 k g rest f)
  then show ?case using group_add_keys [of rest f] by (auto simp: image_iff)
qed

lemma group_add_entry:
  "(k, g) \<in> set (group_add acc f) \<Longrightarrow> distinct (map fst acc) \<Longrightarrow>
     (if k = f_question f
      then (g = [f] \<and> k \<notin> fst ` set acc) \<or> (\<exists>g'. (k, g') \<in> set acc \<and> g = g' @ [f])
      else (k, g) \<in> set acc)"
proof (induction acc f rule: group_add.induct)
  case (1 f)
  then show ?case by simp
next
  case (2 k' g' rest f)
  then show ?case by (fastforce simp: image_iff split: if_splits)
qed

lemma by_question_snoc: "by_question (fs @ [f]) = group_add (by_question fs) f"
  by (simp add: by_question_def)

lemma by_question_keys: "fst ` set (by_question fs) = f_question ` set fs"
  by (induction fs rule: rev_induct) (auto simp: by_question_snoc group_add_keys by_question_def)

lemma by_question_distinct: "distinct (map fst (by_question fs))"
  by (induction fs rule: rev_induct) (auto simp: by_question_snoc group_add_distinct by_question_def)

lemma by_question_groups:
  "(k, g) \<in> set (by_question fs) \<Longrightarrow> g = filter (\<lambda>x. f_question x = k) fs \<and> g \<noteq> []"
proof (induction fs arbitrary: k g rule: rev_induct)
  case Nil
  then show ?case by (simp add: by_question_def)
next
  case (snoc f fs)
  from snoc.prems have mem: "(k, g) \<in> set (group_add (by_question fs) f)"
    by (simp add: by_question_snoc)
  note ent = group_add_entry [OF mem by_question_distinct]
  show ?case
  proof (cases "k = f_question f")
    case True
    with ent consider (new) "g = [f]" "k \<notin> fst ` set (by_question fs)"
      | (old) g' where "(k, g') \<in> set (by_question fs)" "g = g' @ [f]"
      by auto
    then show ?thesis
    proof cases
      case new
      from new(2) have "\<forall>x\<in>set fs. f_question x \<noteq> k" by (auto simp: by_question_keys)
      then have "filter (\<lambda>x. f_question x = k) fs = []" by (auto simp: filter_empty_conv)
      with new(1) True show ?thesis by simp
    next
      case old
      with snoc.IH True show ?thesis by auto
    qed
  next
    case False
    with ent snoc.IH show ?thesis by auto
  qed
qed

lemma verify_long:
  assumes "length fs > 3"
  shows "verify words fs = concat (map (\<lambda>(question, question_findings). verify_group words question_findings)
                       (by_question fs))"
proof -
  from assms have "fs \<noteq> []" "\<not> length fs \<le> 3" by auto
  then show ?thesis by (simp add: verify_def)
qed

lemma verify_long_set:
  assumes "length fs > 3"
  shows "set (verify words fs) =
    (\<lambda>finding. \<lparr> vf_finding = finding,
        vf_verification_status =
          group_status (supporting_of words (filter (\<lambda>x. f_question x = f_question finding) fs) finding),
        vf_supporting_sources =
          supporting_of words (filter (\<lambda>x. f_question x = f_question finding) fs) finding,
        vf_conflicting_sources = [], vf_notes = [] \<rparr>) ` set fs" (is "?L = ?R")
proof
  show "?L \<subseteq> ?R"
  proof
    fix v assume "v \<in> ?L"
    with verify_long [OF assms] obtain k g finding where kg: "(k, g) \<in> set (by_question fs)"
      and fin: "finding \<in> set g"
      and v: "v = \<lparr> vf_finding = finding,
              vf_verification_status = group_status (supporting_of words g finding),
              vf_supporting_sources = supporting_of words g finding,
              vf_conflicting_sources = [], vf_notes = [] \<rparr>"
      by (auto simp: verify_group_def)
    from by_question_groups [OF kg] have g: "g = filter (\<lambda>x. f_question x = k) fs" by simp
    with fin have "finding \<in> set fs" "f_question finding = k" by auto
    with v g show "v \<in> ?R" by auto
  qed
next
  show "?R \<subseteq> ?L"
  proof
    fix v assume "v \<in> ?R"
    then obtain finding where fin: "finding \<in> set fs"
      and v: "v = \<lparr> vf_finding = finding,
        vf_verification_status =
          group_status (supporting_of words (filter (\<lambda>x. f_question x = f_question finding) fs) finding),
        vf_supporting_sources =
          supporting_of words (filter (\<lambda>x. f_question x = f_question finding) fs) finding,
        vf_conflicting_sources = [], vf_notes = [] \<rparr>" by auto
    from fin have "f_question finding \<in> fst ` set (by_question fs)"
      by (simp add: by_question_keys)
    then obtain g where kg: "(f_question finding, g) \<in> set (by_question fs)" by auto
    from by_question_groups [OF kg]
    have g: "g = filter (\<lambda>x. f_question x = f_question finding) fs" by simp
    with fin have "finding \<in> set g" by simp
    with kg g v have "v \<in> set (verify_group words g)" by (auto simp: verify_group_def)
    with kg show "v \<in> ?L" unfolding verify_long [OF assms] by force
  qed
qed

lemma group_status_confirmed: "group_status s = (if s = [] then ''unverified'' else ''confirmed'')"
  by (cases s; cases "tl s") (auto simp: group_status_def Let_def)

lemma supporting_of_empty:
  "supporting_of words (filter (\<lambda>x. f_question x = f_question f) fs) f = [] \<longleftrightarrow>
   \<not> (\<exists>g\<in>set fs. f_question g = f_question f \<and> f_source g \<noteq> f_source f
        \<and> content_similar words (f_content f) (f_content g))"
  by (auto simp: supporting_of_def filter_empty_conv)

lemma lower_T: "lower_char (CHR ''T'') = CHR ''t''"
  by (simp add: lower_char_def is_upper_def char_of_def bit_0)

lemma words_a: "ascii_words (f_content scenario_a) = {''the'', ''sky'', ''is'', ''blue'', ''today''}"
  by (simp add: scenario_a_def ascii_words_def py_split_def py_lower_def lower_char_def
        is_upper_def is_space_def Let_def)

lemma words_b: "ascii_words (f_content scenario_b) = {''the'', ''sky'', ''is'', ''very'', ''blue''}"
  by (simp add: scenario_b_def ascii_words_def py_split_def py_lower_def lower_char_def
        is_upper_def is_space_def Let_def char_of_def bit_0)

lemma words_c: "ascii_words (f_content scenario_c) = {''grass'', ''grows'', ''slowly''}"
  by (simp add: scenario_c_def ascii_words_def py_split_def py_lower_def lower_char_def
        is_upper_def is_space_def Let_def)

lemma words_d: "ascii_words (f_content scenario_d) = {''rivers'', ''run'', ''downhill''}"
  by (simp add: scenario_d_def ascii_words_def py_split_def py_lower_def lower_char_def
        is_upper_def is_space_def Let_def)

lemma sim_ab: "content_similar ascii_words (f_content scenario_a) (f_content scenario_b)"
  unfolding content_similar_def words_a words_b Let_def by simp

lemma sim_cd: "\<not> content_similar ascii_words (f_content scenario_c) (f_content scenario_d)"
  unfolding content_similar_def words_c words_d Let_def by simp



text \<open>
  Claim C1, as amended. For \<open>verify\<close> over a list of more than three findings: every
  finding has an entry in the result, every entry is for a finding of the list, and the
  entry is marked \<open>confirmed\<close> exactly when the list holds a finding for the same question,
  from a different source, with similar content; otherwise it is marked \<open>unverified\<close>.
  Similar means that the shared words are more than 30 percent of the smaller of the two
  word sets. Similarity is symmetric (third conjunct), so both findings of such a pair are
  confirmed. This holds for every word-splitting function.
\<close>

theorem verify_corroboration:
  assumes "length fs > 3"
  shows "(\<forall>f\<in>set fs. \<exists>v\<in>set (verify words fs). vf_finding v = f)
   \<and> (\<forall>v\<in>set (verify words fs). vf_finding v \<in> set fs
        \<and> vf_verification_status v =
            (if \<exists>g\<in>set fs. f_question g = f_question (vf_finding v)
                    \<and> f_source g \<noteq> f_source (vf_finding v)
                    \<and> content_similar words (f_content (vf_finding v)) (f_content g)
             then ''confirmed'' else ''unverified''))
   \<and> (\<forall>a b. content_similar words a b = content_similar words b a)"
proof (intro conjI)
  show "\<forall>f\<in>set fs. \<exists>v\<in>set (verify words fs). vf_finding v = f"
    unfolding verify_long_set [OF assms] by force
next
  show "\<forall>v\<in>set (verify words fs). vf_finding v \<in> set fs
        \<and> vf_verification_status v =
            (if \<exists>g\<in>set fs. f_question g = f_question (vf_finding v)
                    \<and> f_source g \<noteq> f_source (vf_finding v)
                    \<and> content_similar words (f_content (vf_finding v)) (f_content g)
             then ''confirmed'' else ''unverified'')"
  proof
    fix v assume "v \<in> set (verify words fs)"
    then obtain f where f: "f \<in> set fs" and fin: "vf_finding v = f"
      and st: "vf_verification_status v =
          group_status (supporting_of words (filter (\<lambda>x. f_question x = f_question f) fs) f)"
      unfolding verify_long_set [OF assms] by auto
    from st show "vf_finding v \<in> set fs
        \<and> vf_verification_status v =
            (if \<exists>g\<in>set fs. f_question g = f_question (vf_finding v)
                    \<and> f_source g \<noteq> f_source (vf_finding v)
                    \<and> content_similar words (f_content (vf_finding v)) (f_content g)
             then ''confirmed'' else ''unverified'')"
      unfolding fin group_status_confirmed supporting_of_empty using f by simp
  qed
next
  show "\<forall>a b. content_similar words a b = content_similar words b a"
    using content_similar_sym by blast
qed


lemma by_question_more:
  "by_question scenario4_more = [(''q'', [scenario_a, scenario_b]), (''other'', [scenario_c, scenario_d])]"
  by (simp add: scenario4_more_def by_question_def scenario_a_def scenario_b_def scenario_c_def
        scenario_d_def)

lemma verify_more_findings:
  "map vf_finding (verify ascii_words scenario4_more) = scenario4_more"
proof -
  have "length scenario4_more > 3" by (simp add: scenario4_more_def)
  from verify_long [OF this] show ?thesis
    by (simp add: by_question_more verify_group_def) (simp add: scenario4_more_def)
qed

theorem verify_corroboration_witness:
  "length scenario4_more > 3
   \<and> f_question scenario_a = f_question scenario_b
   \<and> f_source scenario_a \<noteq> f_source scenario_b
   \<and> content_similar ascii_words (f_content scenario_a) (f_content scenario_b)
   \<and> map vf_finding (verify ascii_words scenario4_more) = scenario4_more
   \<and> map vf_verification_status (verify ascii_words scenario4_more)
       = [''confirmed'', ''confirmed'', ''unverified'', ''unverified'']"
proof -
  have len: "length scenario4_more > 3" by (simp add: scenario4_more_def)
  note vc = verify_corroboration [OF len, of ascii_words, THEN conjunct2, THEN conjunct1, rule_format]
  have q: "f_question scenario_a = f_question scenario_b"
    and src: "f_source scenario_a \<noteq> f_source scenario_b"
    by (simp_all add: scenario_a_def scenario_b_def)
  have lenv: "length (verify ascii_words scenario4_more) = 4"
    using arg_cong [OF verify_more_findings, of length] by (simp add: scenario4_more_def)
  have nth: "\<And>i. i < 4 \<Longrightarrow> vf_finding (verify ascii_words scenario4_more ! i) = scenario4_more ! i"
    using verify_more_findings lenv by (metis nth_map)
  have mem: "\<And>i. i < 4 \<Longrightarrow> verify ascii_words scenario4_more ! i \<in> set (verify ascii_words scenario4_more)"
    using lenv by simp
  have pa: "\<exists>g\<in>set scenario4_more. f_question g = f_question scenario_a
              \<and> f_source g \<noteq> f_source scenario_a
              \<and> content_similar ascii_words (f_content scenario_a) (f_content g)"
    using sim_ab q src by (auto simp: scenario4_more_def)
  have pb: "\<exists>g\<in>set scenario4_more. f_question g = f_question scenario_b
              \<and> f_source g \<noteq> f_source scenario_b
              \<and> content_similar ascii_words (f_content scenario_b) (f_content g)"
    using sim_ab q src content_similar_sym [of ascii_words] by (auto simp: scenario4_more_def)
  have qc: "f_question scenario_c \<noteq> f_question scenario_a" "f_question scenario_c \<noteq> f_question scenario_b"
       "f_source scenario_d = f_source scenario_c"
    by (simp_all add: scenario_a_def scenario_b_def scenario_c_def scenario_d_def)
  have qd: "f_question scenario_d \<noteq> f_question scenario_a" "f_question scenario_d \<noteq> f_question scenario_b"
    by (simp_all add: scenario_a_def scenario_b_def scenario_d_def)
  have pc: "\<not> (\<exists>g\<in>set scenario4_more. f_question g = f_question scenario_c
              \<and> f_source g \<noteq> f_source scenario_c
              \<and> content_similar ascii_words (f_content scenario_c) (f_content g))"
    using qc by (auto simp: scenario4_more_def)
  have pd: "\<not> (\<exists>g\<in>set scenario4_more. f_question g = f_question scenario_d
              \<and> f_source g \<noteq> f_source scenario_d
              \<and> content_similar ascii_words (f_content scenario_d) (f_content g))"
    using qc qd by (auto simp: scenario4_more_def)
  have s0: "vf_verification_status (verify ascii_words scenario4_more ! 0) = ''confirmed''"
    using vc [OF mem [of 0]] nth [of 0] pa by (simp add: scenario4_more_def)
  have s1: "vf_verification_status (verify ascii_words scenario4_more ! 1) = ''confirmed''"
    using vc [OF mem [of 1]] nth [of 1] pb by (simp add: scenario4_more_def)
  have s2: "vf_verification_status (verify ascii_words scenario4_more ! 2) = ''unverified''"
    using vc [OF mem [of 2]] nth [of 2] pc by (simp add: scenario4_more_def)
  have s3: "vf_verification_status (verify ascii_words scenario4_more ! 3) = ''unverified''"
    using vc [OF mem [of 3]] nth [of 3] pd by (simp add: scenario4_more_def)
  have "map vf_verification_status (verify ascii_words scenario4_more)
       = [''confirmed'', ''confirmed'', ''unverified'', ''unverified'']"
    using lenv s0 s1 s2 s3
    by (auto simp: list_eq_iff_nth_eq less_Suc_eq numeral_eq_Suc)
  with len q src sim_ab verify_more_findings show ?thesis by (intro conjI)
qed


text \<open>
  Claim C1 as first stated, for any list of findings, fails on Scenario 4 itself: with
  three findings or fewer \<open>verify\<close> marks every finding \<open>unverified\<close> without comparing
  them, also the two that answer the same question from different sources with four
  shared words out of five.
\<close>

theorem verify_scenario4_counterexample:
  "f_question scenario_a = f_question scenario_b
   \<and> f_source scenario_a \<noteq> f_source scenario_b
   \<and> content_similar ascii_words (f_content scenario_a) (f_content scenario_b)
   \<and> map vf_finding (verify ascii_words scenario4) = scenario4
   \<and> map vf_verification_status (verify ascii_words scenario4)
       = [''unverified'', ''unverified'', ''unverified'']"
proof -
  have q: "f_question scenario_a = f_question scenario_b"
    and src: "f_source scenario_a \<noteq> f_source scenario_b"
    by (simp_all add: scenario_a_def scenario_b_def)
  have v: "verify ascii_words scenario4 = map unverified_of scenario4"
    by (simp add: verify_def scenario4_def)
  have "map vf_finding (verify ascii_words scenario4) = scenario4"
    and "map vf_verification_status (verify ascii_words scenario4)
       = [''unverified'', ''unverified'', ''unverified'']"
    unfolding v by (simp_all add: scenario4_def unverified_of_def)
  with q src sim_ab show ?thesis by (intro conjI)
qed

subsection \<open>The research loop\<close>

lemma step_iteration_mono: "step c c' \<Longrightarrow> iteration (snd c) \<le> iteration (snd c')"
  by (induction rule: step.induct)
     (auto simp: plan_node_def research_node_def reflect_node_def verify_node_def
        write_node_def Let_def split: prod.splits)

lemma step_max_iterations: "step c c' \<Longrightarrow> max_iterations (snd c') = max_iterations (snd c)"
  by (induction rule: step.induct)
     (auto simp: plan_node_def research_node_def reflect_node_def verify_node_def
        write_node_def Let_def split: prod.splits)

lemma step_budget_inv:
  assumes "step c c'" "budget_inv i0 ns c"
  shows "budget_inv i0 (ns @ [fst c]) c'"
  using assms
  by (induction rule: step.induct)
     (auto simp: budget_inv_def plan_node_def research_node_def reflect_node_def verify_node_def
        write_node_def Let_def should_continue_researching_def
        split: prod.splits decision.splits if_splits)

lemma run_budget_inv:
  assumes "run c ns c'" "fst c \<noteq> N_reflect" "iteration (snd c) \<le> max_iterations (snd c)"
  shows "budget_inv (iteration (snd c)) ns c' \<and> max_iterations (snd c') = max_iterations (snd c)"
  using assms
proof (induction rule: run.induct)
  case (run_nil c)
  then show ?case by (simp add: budget_inv_def)
next
  case (run_snoc c ns c' c'')
  then show ?case using step_budget_inv step_max_iterations by metis
qed

text \<open>
  Claim C2, as amended. In every run of the workflow graph from its entry point with a
  budget \<open>N = max_iterations\<close> that is not negative, started with the counter between
  0 and \<open>N\<close> (the command line starts it at 0): the counter never decreases, it never
  exceeds \<open>N\<close>, and the \<open>reflect\<close> node runs at most \<open>N\<close> times, whatever the
  reflector answers. The last conjunct says that no step from the state reached lowers
  the counter. The claim as first stated, for every budget, fails for a negative one:
  see \<open>iteration_budget_counterexample\<close>.
\<close>

theorem iteration_budget:
  assumes "run (N_plan, s0) ns (n, s)"
    and "0 \<le> iteration s0" and "iteration s0 \<le> max_iterations s0"
  shows "iteration s0 \<le> iteration s
       \<and> iteration s \<le> max_iterations s0
       \<and> int (count_list ns N_reflect) \<le> max_iterations s0
       \<and> (\<forall>c'. step (n, s) c' \<longrightarrow> iteration s \<le> iteration (snd c'))"
proof -
  from run_budget_inv [OF assms(1)] assms(3)
  have inv: "budget_inv (iteration s0) ns (n, s)" and mx: "max_iterations s = max_iterations s0"
    by simp_all
  from inv have eq: "iteration s = iteration s0 + int (count_list ns N_reflect)"
    and le: "iteration s \<le> max_iterations s" by (simp_all add: budget_inv_def)
  have mono: "\<forall>c'. step (n, s) c' \<longrightarrow> iteration s \<le> iteration (snd c')"
    using step_iteration_mono by fastforce
  from eq le mx assms(2) mono show ?thesis by simp
qed

lemma demo_s0_eval:
  "demo_s0 = \<lparr> job_id = ''job'', topic = ''topic'', depth = BALANCED, status = PENDING,
       plan = [], current_question_index = 0, completed_question_ids = [], findings = [],
       search_history = [], iteration = 0, max_iterations = 1, reflection = None,
       verified_findings = [], report = [], error = None \<rparr>"
  by (simp add: demo_s0_def initial_state_def)

lemma demo_s1_eval:
  "demo_s1 = \<lparr> job_id = ''job'', topic = ''topic'', depth = BALANCED, status = RUNNING,
       plan = [new_question ''q1'' ''first'' [], new_question ''q2'' ''second'' [''q1'']],
       current_question_index = 0, completed_question_ids = [], findings = [],
       search_history = [], iteration = 0, max_iterations = 1, reflection = None,
       verified_findings = [], report = [], error = None \<rparr>"
  by (simp add: demo_s1_def demo_s0_def initial_state_def plan_node_def)

lemma demo_s2_eval:
  "demo_s2 = \<lparr> job_id = ''job'', topic = ''topic'', depth = BALANCED, status = RUNNING,
       plan = [new_question ''q1'' ''first'' [], new_question ''q2'' ''second'' [''q1'']],
       current_question_index = 1, completed_question_ids = [''q1''], findings = [],
       search_history = [\<lparr> sr_query = ''first'', sr_provider = ''tavily'', sr_results_count = 0 \<rparr>],
       iteration = 0, max_iterations = 1, reflection = None,
       verified_findings = [], report = [], error = None \<rparr>"
  unfolding demo_s2_def demo_s1_eval
  by (simp add: research_node_def demo_researcher_def Let_def new_question_def)

lemma demo_s3_eval:
  "demo_s3 = \<lparr> job_id = ''job'', topic = ''topic'', depth = BALANCED, status = RUNNING,
       plan = [new_question ''q1'' ''first'' [], new_question ''q2'' ''second'' [''q1'']],
       current_question_index = 1, completed_question_ids = [''q1''], findings = [],
       search_history = [\<lparr> sr_query = ''first'', sr_provider = ''tavily'', sr_results_count = 0 \<rparr>],
       iteration = 1, max_iterations = 1, reflection = Some demo_reflection,
       verified_findings = [], report = [], error = None \<rparr>"
  unfolding demo_s3_def demo_s2_eval
  by (simp add: reflect_node_def demo_reflection_def)

lemma demo_s4_eval:
  "demo_s4 = \<lparr> job_id = ''job'', topic = ''topic'', depth = BALANCED, status = RUNNING,
       plan = [new_question ''q1'' ''first'' [], new_question ''q2'' ''second'' [''q1'']],
       current_question_index = 2, completed_question_ids = [''q1'', ''q2''], findings = [],
       search_history = [\<lparr> sr_query = ''first'', sr_provider = ''tavily'', sr_results_count = 0 \<rparr>,
                         \<lparr> sr_query = ''second'', sr_provider = ''tavily'', sr_results_count = 0 \<rparr>],
       iteration = 1, max_iterations = 1, reflection = Some demo_reflection,
       verified_findings = [], report = [], error = None \<rparr>"
  unfolding demo_s4_def demo_s3_eval
  by (simp add: research_node_def demo_researcher_def Let_def new_question_def)

lemma demo_run: "run (N_plan, demo_s0) [N_plan, N_research, N_reflect, N_research] (N_verify, demo_s4)"
proof -
  have r0: "run (N_plan, demo_s0) [] (N_plan, demo_s0)" by (rule run_nil)
  have s1: "step (N_plan, demo_s0) (N_research, demo_s1)"
    unfolding demo_s1_def by (rule step_plan)
  have s2: "step (N_research, demo_s1) (N_reflect, demo_s2)"
    by (rule step_research [where researcher = demo_researcher])
       (simp_all add: demo_s2_def [symmetric], simp add: demo_s2_eval should_continue_researching_def)
  have s3: "step (N_reflect, demo_s2) (N_research, demo_s3)"
    unfolding demo_s3_def by (rule step_reflect)
  have s4: "step (N_research, demo_s3) (N_verify, demo_s4)"
    by (rule step_research [where researcher = demo_researcher])
       (simp_all add: demo_s4_def [symmetric], simp add: demo_s4_eval should_continue_researching_def)
  from run_snoc [OF run_snoc [OF run_snoc [OF run_snoc [OF r0 s1] s2] s3] s4]
  show ?thesis by simp
qed


theorem iteration_budget_witness:
  "run (N_plan, demo_s0) [N_plan, N_research, N_reflect, N_research] (N_verify, demo_s4)
   \<and> iteration demo_s0 = 0 \<and> max_iterations demo_s0 = 1
   \<and> iteration demo_s4 = 1
   \<and> iteration demo_s4 \<le> max_iterations demo_s0
   \<and> int (count_list [N_plan, N_research, N_reflect, N_research] N_reflect)
       \<le> max_iterations demo_s0"
proof -
  have i0: "iteration demo_s0 = 0" and m0: "max_iterations demo_s0 = 1"
    by (simp_all add: demo_s0_eval)
  have i4: "iteration demo_s4 = 1"
    by (simp add: demo_s4_eval)
  from iteration_budget [OF demo_run] i0 m0 i4 demo_run show ?thesis by simp
qed

text \<open>
  Claim C2 as first stated fails at the budget \<open>-1\<close>, which the command line passes
  on unchanged: the run \<open>plan, research\<close> goes on to \<open>verify\<close> with the counter at 0,
  above the budget, and the number of \<open>reflect\<close> nodes run, 0, is above the budget too.
\<close>

lemma neg_run: "run (N_plan, neg_s0) [N_plan, N_research] (N_verify, neg_s2)"
proof -
  have r0: "run (N_plan, neg_s0) [] (N_plan, neg_s0)" by (rule run_nil)
  have s1: "step (N_plan, neg_s0) (N_research, neg_s1)"
    unfolding neg_s1_def by (rule step_plan)
  have s2: "step (N_research, neg_s1) (N_verify, neg_s2)"
    by (rule step_research [where researcher = demo_researcher])
       (simp_all add: neg_s2_def neg_s1_def neg_s0_def initial_state_def plan_node_def
          research_node_def should_continue_researching_def Let_def)
  from run_snoc [OF run_snoc [OF r0 s1] s2] show ?thesis by simp
qed

theorem iteration_budget_counterexample:
  "run (N_plan, neg_s0) [N_plan, N_research] (N_verify, neg_s2)
   \<and> iteration neg_s0 = 0 \<and> max_iterations neg_s0 = - 1
   \<and> \<not> iteration neg_s2 \<le> max_iterations neg_s0
   \<and> \<not> int (count_list [N_plan, N_research] N_reflect) \<le> max_iterations neg_s0"
proof -
  have "iteration neg_s0 = 0" "max_iterations neg_s0 = - 1"
    by (simp_all add: neg_s0_def initial_state_def)
  moreover have "iteration neg_s2 = 0"
    by (simp add: neg_s2_def neg_s1_def neg_s0_def initial_state_def plan_node_def
          research_node_def Let_def)
  ultimately show ?thesis using neg_run by simp
qed

text \<open>
  Claim C5. After a research step the decision applies its checks in this order:
  (1) budget reached: stop (verify); otherwise (2) cursor within the plan: continue;
  otherwise (3) the last reflection reports incomplete: continue; (4) otherwise stop.
\<close>

theorem should_continue_precedence:
  "(iteration s \<ge> max_iterations s \<longrightarrow> should_continue_researching s = Verify)
   \<and> (iteration s < max_iterations s \<and> current_question_index s < length (plan s)
        \<longrightarrow> should_continue_researching s = Continue)
   \<and> (iteration s < max_iterations s \<and> \<not> current_question_index s < length (plan s)
        \<and> (\<exists>r. reflection s = Some r \<and> \<not> r_is_complete r)
        \<longrightarrow> should_continue_researching s = Continue)
   \<and> (iteration s < max_iterations s \<and> \<not> current_question_index s < length (plan s)
        \<and> \<not> (\<exists>r. reflection s = Some r \<and> \<not> r_is_complete r)
        \<longrightarrow> should_continue_researching s = Verify)"
  by (auto simp: should_continue_researching_def split: option.splits)

theorem should_continue_precedence_witness:
  "should_continue_researching demo_s4 = Verify
   \<and> should_continue_researching demo_s2 = Continue
   \<and> should_continue_researching (demo_s0\<lparr> reflection := Some demo_reflection \<rparr>) = Continue
   \<and> should_continue_researching demo_s0 = Verify"
proof -
  have a: "iteration demo_s4 \<ge> max_iterations demo_s4"
    by (simp add: demo_s4_eval)
  have b: "iteration demo_s2 < max_iterations demo_s2
           \<and> current_question_index demo_s2 < length (plan demo_s2)"
    by (simp add: demo_s2_eval)
  have c: "iteration (demo_s0\<lparr> reflection := Some demo_reflection \<rparr>)
             < max_iterations (demo_s0\<lparr> reflection := Some demo_reflection \<rparr>)
           \<and> \<not> current_question_index (demo_s0\<lparr> reflection := Some demo_reflection \<rparr>)
                 < length (plan (demo_s0\<lparr> reflection := Some demo_reflection \<rparr>))
           \<and> (\<exists>r. reflection (demo_s0\<lparr> reflection := Some demo_reflection \<rparr>) = Some r
                  \<and> \<not> r_is_complete r)"
    by (simp add: demo_s0_eval demo_reflection_def)
  have d: "iteration demo_s0 < max_iterations demo_s0
           \<and> \<not> current_question_index demo_s0 < length (plan demo_s0)
           \<and> \<not> (\<exists>r. reflection demo_s0 = Some r \<and> \<not> r_is_complete r)"
    by (simp add: demo_s0_eval)
  have v1: "should_continue_researching demo_s4 = Verify"
    using should_continue_precedence [of demo_s4] a by blast
  have v2: "should_continue_researching demo_s2 = Continue"
    using should_continue_precedence [of demo_s2] b by blast
  have v3: "should_continue_researching (demo_s0\<lparr> reflection := Some demo_reflection \<rparr>) = Continue"
    using should_continue_precedence [of "demo_s0\<lparr> reflection := Some demo_reflection \<rparr>"] c
    by blast
  have v4: "should_continue_researching demo_s0 = Verify"
    using should_continue_precedence [of demo_s0] d by blast
  from v1 v2 v3 v4 show ?thesis by (intro conjI)
qed

text \<open>
  Claim C4. \<open>research_node\<close> passes a question to the researcher only if it is the
  question under the cursor and every id in its dependencies is among the completed
  ids; a question with a dependency that is not completed is passed over: the cursor
  advances, nothing else changes and the researcher is not invoked. This holds in every
  state, hence in every reachable one.
\<close>

theorem research_node_dependencies:
  "(q \<in> set (snd (research_node researcher s)) \<longrightarrow>
      current_question_index s < length (plan s)
      \<and> q = plan s ! current_question_index s
      \<and> set (q_dependencies q) \<subseteq> set (completed_question_ids s))
   \<and> (current_question_index s < length (plan s)
      \<and> \<not> set (q_dependencies (plan s ! current_question_index s))
            \<subseteq> set (completed_question_ids s) \<longrightarrow>
      research_node researcher s
        = (s\<lparr> current_question_index := current_question_index s + 1 \<rparr>, []))"
  by (auto simp: research_node_def Let_def list_all_iff split: prod.splits if_splits)

theorem research_node_dependencies_witness:
  "research_node demo_researcher scenario1_state
     = (scenario1_state\<lparr> current_question_index := 1 \<rparr>, [])
   \<and> snd (research_node demo_researcher (scenario1_state\<lparr> current_question_index := 1 \<rparr>))
     = [new_question ''A'' ''a'' []]
   \<and> set (q_dependencies (new_question ''A'' ''a'' []))
       \<subseteq> set (completed_question_ids (scenario1_state\<lparr> current_question_index := 1 \<rparr>))"
proof -
  have a: "current_question_index scenario1_state < length (plan scenario1_state)
      \<and> \<not> set (q_dependencies (plan scenario1_state ! current_question_index scenario1_state))
            \<subseteq> set (completed_question_ids scenario1_state)"
    by (simp add: scenario1_state_def initial_state_def new_question_def)
  have b: "snd (research_node demo_researcher (scenario1_state\<lparr> current_question_index := 1 \<rparr>))
     = [new_question ''A'' ''a'' []]"
    by (simp add: scenario1_state_def initial_state_def new_question_def research_node_def
          demo_researcher_def Let_def)
  have c: "current_question_index scenario1_state = 0"
    by (simp add: scenario1_state_def initial_state_def)
  have d: "set (q_dependencies (new_question ''A'' ''a'' []))
       \<subseteq> set (completed_question_ids (scenario1_state\<lparr> current_question_index := 1 \<rparr>))"
    by (simp add: new_question_def)
  from a c research_node_dependencies [of _ demo_researcher scenario1_state]
  have "research_node demo_researcher scenario1_state
     = (scenario1_state\<lparr> current_question_index := 1 \<rparr>, [])"
    by simp
  with b d show ?thesis by blast
qed

subsection \<open>The fact checker\<close>

text \<open>
  Claim C9. When the search service returns an empty result list for the claim's query,
  \<open>_verify_single_claim\<close> returns the claim with status \<open>unverified\<close>, never
  \<open>confirmed\<close>, with the note \<open>No search results found\<close>, whatever the model would
  answer: the empty list is a normal return of the search, and the note is not the one
  of the error path.
\<close>

theorem no_results_unverified:
  assumes "search_tool search_query 3 = Returns []"
  shows "verify_single_claim search_tool llm claim claim_type search_query
           = \<lparr> vc_claim = claim, vc_status = UNVERIFIED, vc_source_url = None,
               vc_notes = ''No search results found'' \<rparr>
       \<and> vc_status (verify_single_claim search_tool llm claim claim_type search_query)
           \<noteq> CONFIRMED
       \<and> verify_single_claim search_tool llm claim claim_type search_query
           \<noteq> verification_failed claim"
  using assms by (simp add: verify_single_claim_def verification_failed_def)

theorem no_results_unverified_witness:
  "empty_search ''moon landing 1969'' 3 = Returns []
   \<and> verify_single_claim empty_search confirming_llm ''The moon landing was in 1969'' ''fact''
         ''moon landing 1969''
       = \<lparr> vc_claim = ''The moon landing was in 1969'', vc_status = UNVERIFIED,
           vc_source_url = None, vc_notes = ''No search results found'' \<rparr>
   \<and> vc_status (verify_single_claim one_hit_search confirming_llm
         ''The moon landing was in 1969'' ''fact'' ''moon landing 1969'') = CONFIRMED"
proof -
  have e: "empty_search ''moon landing 1969'' 3 = Returns []"
    by (simp add: empty_search_def)
  have c: "vc_status (verify_single_claim one_hit_search confirming_llm
         ''The moon landing was in 1969'' ''fact'' ''moon landing 1969'') = CONFIRMED"
    by (simp add: verify_single_claim_def one_hit_search_def confirming_llm_def
          VerificationStatus_of_def dict_get_def obj_get_def)
  from no_results_unverified [of empty_search "''moon landing 1969''" confirming_llm
      "''The moon landing was in 1969''" "''fact''", OF e] e c
  show ?thesis by simp
qed

end
